theory Spec2Isabelle
  imports Main
begin

section \<open>Python strings, slices and number rendering\<close>

text \<open>
  The warehouse connector (\<^verbatim>\<open>app/db/bigquery_database.py\<close>) and the analytics tool
  (\<^verbatim>\<open>bigquery_tool.py\<close>) work on Python \<^verbatim>\<open>str\<close> values. A string is modelled as a
  \<^typ>\<open>string\<close> whose characters are code points below 256, and the string methods the
  two files call (\<^verbatim>\<open>strip\<close>, \<^verbatim>\<open>lower\<close>, \<^verbatim>\<open>startswith\<close>, \<^verbatim>\<open>in\<close>, \<^verbatim>\<open>find\<close>,
  slicing, \<^verbatim>\<open>split\<close>, \<^verbatim>\<open>replace\<close>, \<^verbatim>\<open>join\<close>) are written out with Python's meaning on
  that range: \<^verbatim>\<open>find\<close> answers \<open>-1\<close> when there is no occurrence, slice bounds are
  clamped, negative bounds count from the end.
\<close>


definition is_space :: "char \<Rightarrow> bool" where
  "is_space c = (c \<in> set [CHR 0x09, CHR 0x0A, CHR 0x0B, CHR 0x0C, CHR 0x0D,
                           CHR 0x1C, CHR 0x1D, CHR 0x1E, CHR 0x1F, CHR 0x20, CHR 0x85, CHR 0xA0])"

definition py_strip :: "string \<Rightarrow> string" where
  "py_strip s = rev (dropWhile is_space (rev (dropWhile is_space s)))"

definition lower_table :: "(char \<times> char) list" where
  "lower_table =
     zip ''ABCDEFGHIJKLMNOPQRSTUVWXYZ'' ''abcdefghijklmnopqrstuvwxyz'' @
     zip [CHR 0xC0, CHR 0xC1, CHR 0xC2, CHR 0xC3, CHR 0xC4, CHR 0xC5, CHR 0xC6, CHR 0xC7,
          CHR 0xC8, CHR 0xC9, CHR 0xCA, CHR 0xCB, CHR 0xCC, CHR 0xCD, CHR 0xCE, CHR 0xCF,
          CHR 0xD0, CHR 0xD1, CHR 0xD2, CHR 0xD3, CHR 0xD4, CHR 0xD5, CHR 0xD6,
          CHR 0xD8, CHR 0xD9, CHR 0xDA, CHR 0xDB, CHR 0xDC, CHR 0xDD, CHR 0xDE]
         [CHR 0xE0, CHR 0xE1, CHR 0xE2, CHR 0xE3, CHR 0xE4, CHR 0xE5, CHR 0xE6, CHR 0xE7,
          CHR 0xE8, CHR 0xE9, CHR 0xEA, CHR 0xEB, CHR 0xEC, CHR 0xED, CHR 0xEE, CHR 0xEF,
          CHR 0xF0, CHR 0xF1, CHR 0xF2, CHR 0xF3, CHR 0xF4, CHR 0xF5, CHR 0xF6,
          CHR 0xF8, CHR 0xF9, CHR 0xFA, CHR 0xFB, CHR 0xFC, CHR 0xFD, CHR 0xFE]"

definition lower_char :: "char \<Rightarrow> char" where
  "lower_char c = (case map_of lower_table c of Some d \<Rightarrow> d | None \<Rightarrow> c)"

definition py_lower :: "string \<Rightarrow> string" where
  "py_lower s = map lower_char s"

definition startswith :: "string \<Rightarrow> string \<Rightarrow> bool" where
  "startswith s p = (take (length p) s = p)"

fun py_in :: "string \<Rightarrow> string \<Rightarrow> bool" where
  "py_in sub [] = (sub = [])"
| "py_in sub (c # cs) = (startswith (c # cs) sub \<or> py_in sub cs)"

fun find_at :: "string \<Rightarrow> string \<Rightarrow> nat \<Rightarrow> int" where
  "find_at sub [] i = (if sub = [] then int i else - 1)"
| "find_at sub (c # cs) i =
     (if startswith (c # cs) sub then int i else find_at sub cs (Suc i))"

definition clamp_index :: "'a list \<Rightarrow> int \<Rightarrow> nat" where
  "clamp_index xs i =
     (let n = int (length xs)
      in if i < 0 then nat (max 0 (n + i)) else nat (min i n))"

definition py_find :: "string \<Rightarrow> string \<Rightarrow> int \<Rightarrow> int" where
  "py_find s sub start =
     (if int (length s) < start then - 1
      else find_at sub (drop (clamp_index s start) s) (clamp_index s start))"

definition py_slice :: "'a list \<Rightarrow> int \<Rightarrow> int \<Rightarrow> 'a list" where
  "py_slice xs i j = drop (clamp_index xs i) (take (clamp_index xs j) xs)"

fun py_split :: "char \<Rightarrow> string \<Rightarrow> string list" where
  "py_split sep [] = [[]]"
| "py_split sep (c # cs) =
     (if c = sep then [] # py_split sep cs
      else (case py_split sep cs of
              [] \<Rightarrow> [[c]]
            | l # ls \<Rightarrow> (c # l) # ls))"

function py_replace :: "string \<Rightarrow> string \<Rightarrow> string \<Rightarrow> string" where
  "py_replace old new [] = (if old = [] then new else [])"
| "py_replace old new (c # cs) =
     (if old = [] then new @ c # py_replace old new cs
      else if startswith (c # cs) old
        then new @ py_replace old new (drop (length old) (c # cs))
      else c # py_replace old new cs)"
  by pat_completeness auto
termination
  by (relation "measure (\<lambda>(old, new, s). length s)") auto

definition digit_char :: "nat \<Rightarrow> char" where
  "digit_char d = ''0123456789'' ! d"

function str_nat :: "nat \<Rightarrow> string" where
  "str_nat n = (if n < 10 then [digit_char n] else str_nat (n div 10) @ [digit_char (n mod 10)])"
  by pat_completeness auto
termination
  by (relation "measure id") auto

definition str_int :: "int \<Rightarrow> string" where
  "str_int i = (if i < 0 then CHR ''-'' # str_nat (nat (- i)) else str_nat (nat i))"

definition py_join :: "string \<Rightarrow> string list \<Rightarrow> string" where
  "py_join sep parts =
     (case parts of [] \<Rightarrow> [] | p # ps \<Rightarrow> p @ concat (map (\<lambda>q. sep @ q) ps))"

definition repr_list :: "('a \<Rightarrow> string) \<Rightarrow> 'a list \<Rightarrow> string" where
  "repr_list repr_elem xs = ''['' @ py_join '', '' (map repr_elem xs) @ '']''"

section \<open>Exceptions, the outside world and the call trace\<close>

text \<open>
  A raised exception is a value. \<open>QueryCostError\<close> is the connector's own class; every other
  exception (raised by the warehouse client, the worker pool, prompt formatting or the text
  generation capability) is \<open>PyError\<close> with its class name and its \<^verbatim>\<open>str()\<close> text.
\<close>

datatype exn = QueryCostError string | PyError string string

fun exn_str :: "exn \<Rightarrow> string" where
  "exn_str (QueryCostError msg) = msg"
| "exn_str (PyError cls msg) = msg"

datatype message = SystemMessage string | HumanMessage string

datatype step = Selection | Generation | Validation | Refinement

text \<open>
  Every call that leaves the two modules is recorded, in order, in a trace. The trace is the
  only state the model threads through the tool: what the world answers to a call is a
  function of the trace so far and of the request, so a world may answer the same request
  differently each time.
\<close>

datatype event =
    DryRun string
  | RunQuery string "(string \<times> string) list"
  | StartJob string
  | JobResult string "int option" "string option"
  | GetTable string
  | PoolShutdown
  | Generate step "message list"
  | OnText "string option"
  | OnToolError exn

record field_descr =
  field_name :: string
  field_type :: string
  field_mode :: string
  field_description :: "string option"

record 'row env =
  dry_run_reply :: "event list \<Rightarrow> string \<Rightarrow> exn + int"
  run_query_reply :: "event list \<Rightarrow> string \<Rightarrow> (string \<times> string) list \<Rightarrow> exn + 'row list"
  start_job_reply :: "event list \<Rightarrow> string \<Rightarrow> exn + unit"
  job_result_reply ::
    "event list \<Rightarrow> string \<Rightarrow> int option \<Rightarrow> string option \<Rightarrow> exn + 'row list \<times> string option"
  get_table_reply :: "event list \<Rightarrow> string \<Rightarrow> exn + field_descr list"
  generate_reply :: "event list \<Rightarrow> message list \<Rightarrow> exn + string"
  parse_raw_reply :: "string \<Rightarrow> exn + string"
  row_repr :: "'row \<Rightarrow> string"
  exn_repr :: "exn \<Rightarrow> string"

text \<open>
  \<open>dry_run_reply\<close> is \<^verbatim>\<open>client.query(query, job_config=QueryJobConfig(dry_run=True))\<close>
  read at \<^verbatim>\<open>total_bytes_processed\<close>; \<open>run_query_reply\<close> is the parameterised
  \<^verbatim>\<open>client.query(query, job_config=...).result()\<close> of \<^verbatim>\<open>_execute_query_sync\<close>;
  \<open>start_job_reply\<close> is \<^verbatim>\<open>client.query(query)\<close>; \<open>job_result_reply\<close> is
  \<^verbatim>\<open>query_job.result(page_size=..., page_token=...)\<close>, answering the rows of the page and
  its \<^verbatim>\<open>next_page_token\<close>; \<open>get_table_reply\<close> is \<^verbatim>\<open>client.get_table(...)\<close> read at
  \<^verbatim>\<open>schema\<close>; \<open>generate_reply\<close> is \<^verbatim>\<open>_agenerate_response(messages)\<close> of the tool's base
  class; \<open>parse_raw_reply\<close> is \<^verbatim>\<open>ToolInputSchema.parse_raw(query).latest_human_message\<close>;
  \<open>row_repr\<close> and \<open>exn_repr\<close> are Python's \<^verbatim>\<open>repr\<close> of a row dictionary and of an
  exception. The callbacks of the run manager are taken to return normally.
\<close>

section \<open>The warehouse connector\<close>

record settings =
  BIGQUERY_MAX_BYTES_PROCESSED :: int

text \<open>
  Of the connector object only the fields that its methods read are kept. The worker pool
  is a \<^verbatim>\<open>ThreadPoolExecutor\<close>: once shut down, \<^verbatim>\<open>submit\<close> raises \<^verbatim>\<open>RuntimeError\<close>,
  and shutting it down again does nothing.
\<close>

record bigquery_database =
  project_id :: string
  dataset_id :: string
  pool_shutdown :: bool

definition execute_query_sync ::
  "'row env \<Rightarrow> event list \<Rightarrow> string \<Rightarrow> (string \<times> string) list option
     \<Rightarrow> (exn + 'row list) \<times> event list" where
  "execute_query_sync env h query params =
     (let query_parameters = (case params of None \<Rightarrow> [] | Some kv \<Rightarrow> kv)
      in (run_query_reply env h query query_parameters,
          h @ [RunQuery query query_parameters]))"

definition pool_submit ::
  "bigquery_database \<Rightarrow> (event list \<Rightarrow> (exn + 'a) \<times> event list) \<Rightarrow> event list
     \<Rightarrow> (exn + 'a) \<times> event list" where
  "pool_submit self task h =
     (if pool_shutdown self
      then (Inl (PyError ''RuntimeError'' ''cannot schedule new futures after shutdown''), h)
      else task h)"

definition execute_query ::
  "settings \<Rightarrow> 'row env \<Rightarrow> bigquery_database \<Rightarrow> event list \<Rightarrow> string
     \<Rightarrow> (string \<times> string) list option \<Rightarrow> (exn + 'row list) \<times> event list" where
  "execute_query cfg env self h query params =
     (case dry_run_reply env h query of
        Inl e \<Rightarrow> (Inl e, h @ [DryRun query])
      | Inr total_bytes_processed \<Rightarrow>
          if total_bytes_processed > BIGQUERY_MAX_BYTES_PROCESSED cfg
          then (Inl (QueryCostError
                  (''Query would process '' @ str_int total_bytes_processed @ '' bytes'')),
                h @ [DryRun query])
          else pool_submit self (\<lambda>h'. execute_query_sync env h' query params)
                 (h @ [DryRun query]))"

definition test_connection ::
  "'row env \<Rightarrow> bigquery_database \<Rightarrow> event list \<Rightarrow> bool \<times> event list" where
  "test_connection env self h =
     (let query = ''SELECT 1''
      in case start_job_reply env h query of
           Inl e \<Rightarrow> (False, h @ [StartJob query])
         | Inr u \<Rightarrow>
             (case job_result_reply env (h @ [StartJob query]) query None None of
                Inl e \<Rightarrow> (False, h @ [StartJob query, JobResult query None None])
              | Inr page \<Rightarrow> (True, h @ [StartJob query, JobResult query None None])))"

definition get_table_schema ::
  "'row env \<Rightarrow> bigquery_database \<Rightarrow> event list \<Rightarrow> string
     \<Rightarrow> (exn + field_descr list) \<times> event list" where
  "get_table_schema env self h table_name =
     (let full_name = project_id self @ ''.'' @ dataset_id self @ ''.'' @ table_name
      in (get_table_reply env h full_name, h @ [GetTable full_name]))"

text \<open>
  \<^verbatim>\<open>paginated_query\<close> is a generator around \<^verbatim>\<open>while True\<close>. The model drains it: it
  answers the batches yielded, in order, and how the traversal ended. A warehouse that
  always reports a continuation token keeps an uncapped traversal going for ever, so the
  loop is a partial function and a traversal that does not end has the value \<open>None\<close>.
  \<^verbatim>\<open>not page_token\<close> holds for \<^verbatim>\<open>None\<close> and for the empty string; \<^verbatim>\<open>max_pages and ...\<close>
  is skipped for \<^verbatim>\<open>None\<close> and for \<open>0\<close>.
\<close>

definition token_falsy :: "string option \<Rightarrow> bool" where
  "token_falsy page_token = (case page_token of None \<Rightarrow> True | Some t \<Rightarrow> t = [])"

definition page_cap_reached :: "int option \<Rightarrow> int \<Rightarrow> bool" where
  "page_cap_reached max_pages page_count =
     (case max_pages of None \<Rightarrow> False | Some m \<Rightarrow> m \<noteq> 0 \<and> page_count \<ge> m)"

partial_function (option) paginated_loop ::
  "'row env \<Rightarrow> string \<Rightarrow> int \<Rightarrow> int option \<Rightarrow> string option \<Rightarrow> int \<Rightarrow> 'row list list
     \<Rightarrow> event list \<Rightarrow> ((exn + unit) \<times> 'row list list \<times> event list) option" where
  "paginated_loop env query page_size max_pages page_token page_count yielded h =
     (case job_result_reply env h query (Some page_size) page_token of
        Inl e \<Rightarrow> Some (Inl e, yielded, h @ [JobResult query (Some page_size) page_token])
      | Inr (rows, next_page_token) \<Rightarrow>
          if token_falsy next_page_token \<or> page_cap_reached max_pages page_count
          then Some (Inr (), yielded @ [rows],
                     h @ [JobResult query (Some page_size) page_token])
          else paginated_loop env query page_size max_pages next_page_token (page_count + 1)
                 (yielded @ [rows]) (h @ [JobResult query (Some page_size) page_token]))"

definition paginated_query ::
  "'row env \<Rightarrow> bigquery_database \<Rightarrow> event list \<Rightarrow> string \<Rightarrow> int \<Rightarrow> int option
     \<Rightarrow> ((exn + unit) \<times> 'row list list \<times> event list) option" where
  "paginated_query env self h query page_size max_pages =
     (case start_job_reply env h query of
        Inl e \<Rightarrow> Some (Inl e, [], h @ [StartJob query])
      | Inr u \<Rightarrow> paginated_loop env query page_size max_pages None 0 [] (h @ [StartJob query]))"

definition close :: "bigquery_database \<Rightarrow> event list \<Rightarrow> bigquery_database \<times> event list" where
  "close self h = (self\<lparr>pool_shutdown := True\<rparr>, h @ [PoolShutdown])"

section \<open>The analytics tool\<close>

record tool =
  nb_example_rows :: int
  validate_empty_results :: bool
  validate_with_llm :: bool
  system_context :: string
  prompt_message :: "string \<Rightarrow> string \<Rightarrow> exn + string"
  system_context_selection :: "string option"
  prompt_selection :: "(string \<Rightarrow> exn + string) option"
  system_context_validation :: "string option"
  prompt_validation :: "(string \<Rightarrow> string \<Rightarrow> string \<Rightarrow> exn + string) option"
  prompt_refinement :: "(string \<Rightarrow> string \<Rightarrow> string \<Rightarrow> string \<Rightarrow> exn + string) option"
  db :: bigquery_database

text \<open>
  A prompt template is kept as the function that \<^verbatim>\<open>str.format\<close> makes of it, in the order
  of the keyword arguments at the call (\<^verbatim>\<open>ga4_schema, question\<close>; \<^verbatim>\<open>question\<close>;
  \<^verbatim>\<open>query, result, question\<close>; \<^verbatim>\<open>ga4_schema, question, previous_query, feedback\<close>); a
  template with a placeholder that the call does not supply raises. An optional template
  that is \<^verbatim>\<open>None\<close> or empty gives the empty prompt. The argument \<open>run_manager\<close> of the
  methods is \<open>True\<close> when a run manager is passed and \<open>False\<close> for \<^verbatim>\<open>None\<close>.
\<close>

definition format_opt :: "'f option \<Rightarrow> ('f \<Rightarrow> exn + string) \<Rightarrow> exn + string" where
  "format_opt template apply_args =
     (case template of None \<Rightarrow> Inr [] | Some f \<Rightarrow> apply_args f)"

definition or_empty :: "string option \<Rightarrow> string" where
  "or_empty s = (case s of None \<Rightarrow> [] | Some t \<Rightarrow> t)"

definition on_text :: "bool \<Rightarrow> string option \<Rightarrow> event list \<Rightarrow> event list" where
  "on_text run_manager text h = (if run_manager then h @ [OnText text] else h)"

definition on_tool_error :: "bool \<Rightarrow> exn \<Rightarrow> event list \<Rightarrow> event list" where
  "on_tool_error run_manager e h = (if run_manager then h @ [OnToolError e] else h)"

definition agenerate_response ::
  "'row env \<Rightarrow> step \<Rightarrow> event list \<Rightarrow> message list \<Rightarrow> (exn + string) \<times> event list" where
  "agenerate_response env stp h messages =
     (generate_reply env h messages, h @ [Generate stp messages])"

definition alist_required_fields ::
  "tool \<Rightarrow> 'row env \<Rightarrow> bool \<Rightarrow> event list \<Rightarrow> string \<Rightarrow> (exn + string) \<times> event list" where
  "alist_required_fields self env run_manager h question =
     (let h1 = on_text run_manager (Some ''list_fields'') h
      in case format_opt (prompt_selection self) (\<lambda>f. f question) of
           Inl e \<Rightarrow> (Inl e, h1)
         | Inr content \<Rightarrow>
             (case agenerate_response env Selection h1
                     [SystemMessage (or_empty (system_context_selection self)),
                      HumanMessage content] of
                (Inl e, h2) \<Rightarrow> (Inl e, h2)
              | (Inr response, h2) \<Rightarrow>
                  (Inr (py_join '', '' (map py_strip (py_split CHR '','' response))), h2)))"

definition agenerate_query ::
  "tool \<Rightarrow> 'row env \<Rightarrow> bool \<Rightarrow> event list \<Rightarrow> string \<Rightarrow> string
     \<Rightarrow> (exn + string) \<times> event list" where
  "agenerate_query self env run_manager h question req_fields =
     (let h1 = on_text run_manager (Some ''generate_query'') h
      in case prompt_message self req_fields question of
           Inl e \<Rightarrow> (Inl e, h1)
         | Inr content \<Rightarrow>
             agenerate_response env Generation h1
               [SystemMessage (system_context self), HumanMessage content])"

definition extract_query :: "string \<Rightarrow> string option" where
  "extract_query response =
     (let query_start = py_find response ''```sql'' 0 + 6;
          query_end = py_find response ''```'' query_start
      in if query_start = - 1 \<or> query_end = - 1 then None
         else Some (py_strip (py_slice response query_start query_end)))"

fun parse_lines :: "string list \<Rightarrow> bool \<Rightarrow> string \<Rightarrow> bool \<times> string" where
  "parse_lines [] is_valid reason = (is_valid, reason)"
| "parse_lines (line # lines) is_valid reason =
     (if startswith line ''Valid:''
        then parse_lines lines (py_in ''yes'' (py_lower line)) reason
      else if startswith line ''Reason:''
        then parse_lines lines is_valid (py_strip (py_replace ''Reason:'' '''' line))
      else parse_lines lines is_valid reason)"

definition parse_validation :: "string \<Rightarrow> bool \<times> string \<times> string" where
  "parse_validation response =
     (let lines = py_split CHR ''\<newline>'' (py_strip response);
          (is_valid, reason) = parse_lines lines False ''''
      in (is_valid, '''', reason))"

definition format_results :: "('row \<Rightarrow> string) \<Rightarrow> int \<Rightarrow> 'row list \<Rightarrow> string" where
  "format_results repr_row n results =
     (let sample_rows = py_slice results 0 n
      in ''total rows: '' @ str_nat (length results) @ '', first '' @
         str_nat (length sample_rows) @ '' rows: '' @ repr_list repr_row sample_rows)"

text \<open>
  \<^verbatim>\<open>_avalidate_response\<close> is a \<^verbatim>\<open>try\<close> block whose handler turns every exception into a
  failed validation. \<open>avalidate_try\<close> is the block, \<open>avalidate_response\<close> the block under
  its handler.
\<close>

definition avalidate_try ::
  "settings \<Rightarrow> tool \<Rightarrow> 'row env \<Rightarrow> event list \<Rightarrow> string \<Rightarrow> string
     \<Rightarrow> (exn + bool \<times> string \<times> string) \<times> event list" where
  "avalidate_try cfg self env h question response =
     (case extract_query response of
        None \<Rightarrow> (Inr (False, '''', ''Could not parse SQL query from response''), h)
      | Some query \<Rightarrow>
          (case execute_query cfg env (db self) h query None of
             (Inl e, h1) \<Rightarrow> (Inl e, h1)
           | (Inr results, h1) \<Rightarrow>
               if results = [] then (Inr (False, '''', ''Query returned no results''), h1)
               else if validate_empty_results self \<and> length results = 0
                 then (Inr (False, '''', ''Query executed but returned no rows''), h1)
               else
                 (let results_str = format_results (row_repr env) (nb_example_rows self) results
                  in if validate_with_llm self
                     then (case format_opt (prompt_validation self)
                                  (\<lambda>f. f response results_str question) of
                             Inl e \<Rightarrow> (Inl e, h1)
                           | Inr content \<Rightarrow>
                               (case agenerate_response env Validation h1
                                       [SystemMessage (or_empty (system_context_validation self)),
                                        HumanMessage content] of
                                  (Inl e, h2) \<Rightarrow> (Inl e, h2)
                                | (Inr validation_response, h2) \<Rightarrow>
                                    (Inr (parse_validation validation_response), h2)))
                     else (Inr (True, results_str, ''''), h1))))"

definition avalidate_response ::
  "settings \<Rightarrow> tool \<Rightarrow> 'row env \<Rightarrow> bool \<Rightarrow> event list \<Rightarrow> string \<Rightarrow> string
     \<Rightarrow> (bool \<times> string \<times> string) \<times> event list" where
  "avalidate_response cfg self env run_manager h question response =
     (case avalidate_try cfg self env h question response of
        (Inr outcome, h1) \<Rightarrow> (outcome, h1)
      | (Inl e, h1) \<Rightarrow> ((False, '''', exn_str e), on_tool_error run_manager e h1))"

definition aimprove_query ::
  "tool \<Rightarrow> 'row env \<Rightarrow> bool \<Rightarrow> event list \<Rightarrow> string \<Rightarrow> string \<Rightarrow> string \<Rightarrow> string
     \<Rightarrow> (exn + string) \<times> event list" where
  "aimprove_query self env run_manager h question previous_query feedback req_fields =
     (let h1 = on_text run_manager (Some ''improve_query'') h
      in case format_opt (prompt_refinement self)
                (\<lambda>f. f req_fields question previous_query feedback) of
           Inl e \<Rightarrow> (Inl e, h1)
         | Inr content \<Rightarrow>
             agenerate_response env Refinement h1
               [SystemMessage (system_context self), HumanMessage content])"

text \<open>
  The loop of \<^verbatim>\<open>_arun\<close>: \<^verbatim>\<open>while result is None and retries <= 3\<close>. Its state is the
  candidate \<open>query_response\<close>, the counter \<open>retries\<close>, and \<open>is_valid\<close> and
  \<open>results_str\<close> of the latest validation (\<open>results_str\<close> is unbound before the first
  one, which always runs). The loop answers \<open>result\<close> (\<open>None\<close> while no candidate has
  validated) with the final \<open>query_response\<close>, \<open>is_valid\<close> and \<open>results_str\<close>, or the
  exception that left it.
\<close>

function validation_loop ::
  "settings \<Rightarrow> tool \<Rightarrow> 'row env \<Rightarrow> bool \<Rightarrow> string \<Rightarrow> string \<Rightarrow> string \<Rightarrow> nat
     \<Rightarrow> bool \<Rightarrow> string \<Rightarrow> event list
     \<Rightarrow> (exn + string option \<times> string \<times> bool \<times> string) \<times> event list" where
  "validation_loop cfg self env run_manager question req_fields query_response retries
       is_valid results_str h =
     (if retries \<le> 3
      then (case avalidate_response cfg self env run_manager h question query_response of
              ((is_valid', results_str', complaints), h1) \<Rightarrow>
                if is_valid'
                then (Inr (Some query_response, query_response, is_valid', results_str'), h1)
                else (case aimprove_query self env run_manager h1 question query_response
                             complaints req_fields of
                        (Inl e, h2) \<Rightarrow> (Inl e, h2)
                      | (Inr improved, h2) \<Rightarrow>
                          validation_loop cfg self env run_manager question req_fields
                            improved (retries + 1) is_valid' results_str' h2))
      else (Inr (None, query_response, is_valid, results_str), h))"
  by pat_completeness auto
termination
  by (relation "measure (\<lambda>(cfg, self, env, run_manager, question, req_fields,
                           query_response, retries, is_valid, results_str, h). 4 - retries)") auto

definition construct_final_response :: "string \<Rightarrow> string \<Rightarrow> string" where
  "construct_final_response query_response results_str =
     query_response @ ''\<newline>\<newline>Results: '' @ results_str"

definition or_no_data :: "string option \<Rightarrow> string" where
  "or_no_data result =
     (case result of None \<Rightarrow> ''no_data'' | Some r \<Rightarrow> if r = [] then ''no_data'' else r)"

text \<open>
  \<open>arun_try\<close> is the \<^verbatim>\<open>try\<close> block of \<^verbatim>\<open>_arun\<close>; \<open>arun\<close> parses the raw tool input
  (outside the block, so a parse error is raised as it is) and runs the block under its
  handler, which returns \<^verbatim>\<open>repr(e)\<close> when a run manager is present and raises otherwise.
\<close>

definition arun_try ::
  "settings \<Rightarrow> tool \<Rightarrow> 'row env \<Rightarrow> bool \<Rightarrow> event list \<Rightarrow> string
     \<Rightarrow> (exn + string) \<times> event list" where
  "arun_try cfg self env run_manager h question =
     (case alist_required_fields self env run_manager h question of
        (Inl e, h1) \<Rightarrow> (Inl e, h1)
      | (Inr req_fields, h1) \<Rightarrow>
          (case agenerate_query self env run_manager h1 question req_fields of
             (Inl e, h2) \<Rightarrow> (Inl e, h2)
           | (Inr query_response, h2) \<Rightarrow>
               (case validation_loop cfg self env run_manager question req_fields
                       query_response 0 False '''' h2 of
                  (Inl e, h3) \<Rightarrow> (Inl e, h3)
                | (Inr (result, final_response, is_valid, results_str), h3) \<Rightarrow>
                    if run_manager
                    then (if is_valid
                          then (Inr (construct_final_response final_response results_str),
                                h3 @ [OnText result])
                          else (Inr (or_no_data result), h3 @ [OnText (Some ''no_data'')]))
                    else (Inr (or_no_data result), h3))))"

definition arun ::
  "settings \<Rightarrow> tool \<Rightarrow> 'row env \<Rightarrow> bool \<Rightarrow> event list \<Rightarrow> string
     \<Rightarrow> (exn + string) \<times> event list" where
  "arun cfg self env run_manager h raw_query =
     (case parse_raw_reply env raw_query of
        Inl e \<Rightarrow> (Inl e, h)
      | Inr question \<Rightarrow>
          (case arun_try cfg self env run_manager h question of
             (Inl e, h1) \<Rightarrow>
               if run_manager then (Inr (exn_repr env e), h1 @ [OnToolError e])
               else (Inl e, h1)
           | (Inr response, h1) \<Rightarrow> (Inr response, h1)))"

section \<open>Observing a trace\<close>

fun is_run_query :: "event \<Rightarrow> bool" where
  "is_run_query (RunQuery q ps) = True"
| "is_run_query ev = False"

definition real_call_issued :: "event list \<Rightarrow> event list \<Rightarrow> bool" where
  "real_call_issued h h' = list_ex is_run_query (drop (length h) h')"

fun is_repair :: "event \<Rightarrow> bool" where
  "is_repair (Generate Refinement ms) = True"
| "is_repair ev = False"

definition repair_calls :: "event list \<Rightarrow> nat" where
  "repair_calls h = length (filter is_repair h)"

fun is_generate :: "event \<Rightarrow> bool" where
  "is_generate (Generate stp ms) = True"
| "is_generate ev = False"

section \<open>Example worlds\<close>

definition dict_repr :: "(string \<times> int) list \<Rightarrow> string" where
  "dict_repr row =
     ''{'' @ py_join '', '' (map (\<lambda>(k, v). [CHR 0x27] @ k @ [CHR 0x27] @ '': '' @ str_int v) row)
       @ ''}''"

definition example_rows :: "(string \<times> int) list list" where
  "example_rows =
     [[(''users'', 100), (''sessions'', 150)], [(''users'', 120), (''sessions'', 180)]]"

definition example_settings :: settings where
  "example_settings = \<lparr>BIGQUERY_MAX_BYTES_PROCESSED = 1000000000\<rparr>"

definition example_db :: bigquery_database where
  "example_db =
     \<lparr>project_id = ''test-project'', dataset_id = ''test_dataset'', pool_shutdown = False\<rparr>"

definition example_pages ::
  "string option \<Rightarrow> (string \<times> int) list list \<times> string option" where
  "example_pages page_token =
     (if page_token = None then ([[(''column1'', 1)]], Some ''p2'')
      else if page_token = Some ''p2'' then ([[(''column1'', 2)]], Some ''p3'')
      else ([[(''column1'', 3)]], None))"

definition example_env ::
  "int \<Rightarrow> (string \<times> int) list list \<Rightarrow> (event list \<Rightarrow> message list \<Rightarrow> exn + string)
     \<Rightarrow> (string \<times> int) list env" where
  "example_env estimate rows llm =
     \<lparr>dry_run_reply = (\<lambda>h q. Inr estimate),
      run_query_reply = (\<lambda>h q ps. Inr rows),
      start_job_reply = (\<lambda>h q. Inr ()),
      job_result_reply = (\<lambda>h q n t. Inr (example_pages t)),
      get_table_reply = (\<lambda>h n. Inr []),
      generate_reply = llm,
      parse_raw_reply = Inr,
      row_repr = dict_repr,
      exn_repr = (\<lambda>e. ''Exception('' @ exn_str e @ '')'')\<rparr>"

definition scripted_llm :: "(exn + string) list \<Rightarrow> event list \<Rightarrow> message list \<Rightarrow> exn + string" where
  "scripted_llm replies h messages =
     (let n = length (filter is_generate h)
      in if n < length replies then replies ! n
         else Inl (PyError ''IndexError'' ''list index out of range''))"

definition unfenced_llm :: "event list \<Rightarrow> message list \<Rightarrow> exn + string" where
  "unfenced_llm h messages = Inr ''SELECT * FROM events''"

definition fenced_llm :: "event list \<Rightarrow> message list \<Rightarrow> exn + string" where
  "fenced_llm h messages =
     (if messages \<noteq> [] \<and> hd messages = SystemMessage ''validate''
      then Inl (PyError ''TimeoutError'' ''model timed out'')
      else Inr ''```sql\<newline>SELECT * FROM events```'')"

definition example_tool :: tool where
  "example_tool =
     \<lparr>nb_example_rows = 3, validate_empty_results = True, validate_with_llm = True,
      system_context = ''You are a test system'',
      prompt_message = (\<lambda>req_fields question. Inr question),
      system_context_selection = None, prompt_selection = None,
      system_context_validation = Some ''validate'', prompt_validation = None,
      prompt_refinement = None, db = example_db\<rparr>"

declare validation_loop.simps [simp del]

section \<open>The cost gate of the connector\<close>

text \<open>
  Claim C1. On a connector whose worker pool accepts work, \<open>execute_query\<close> first issues
  the dry run for the query; the real warehouse call is issued if and only if the
  estimated bytes are at most \<^verbatim>\<open>BIGQUERY_MAX_BYTES_PROCESSED\<close>. An estimate strictly above
  the budget raises \<open>QueryCostError\<close> and the trace ends with the dry run, so the real call
  is never issued; an estimate equal to the budget is let through. Whether the real call
  is issued depends on the estimate and the budget alone. A dry run that itself raises
  passes its exception on, again with no real call.
\<close>

theorem execute_query_cost_gate:
  assumes "\<not> pool_shutdown self"
  shows "let (r, h') = execute_query cfg env self h query params;
             budget = BIGQUERY_MAX_BYTES_PROCESSED cfg;
             query_parameters = (case params of None \<Rightarrow> [] | Some kv \<Rightarrow> kv)
         in take (Suc (length h)) h' = h @ [DryRun query] \<and>
            (case dry_run_reply env h query of
               Inl e \<Rightarrow> r = Inl e \<and> \<not> real_call_issued h h'
             | Inr estimate \<Rightarrow>
                 (real_call_issued h h' \<longleftrightarrow> estimate \<le> budget) \<and>
                 (estimate > budget \<longrightarrow>
                    r = Inl (QueryCostError
                          (''Query would process '' @ str_int estimate @ '' bytes'')) \<and>
                    h' = h @ [DryRun query]) \<and>
                 (estimate \<le> budget \<longrightarrow>
                    r = run_query_reply env (h @ [DryRun query]) query query_parameters \<and>
                    h' = h @ [DryRun query, RunQuery query query_parameters]))"
  using assms
  by (auto simp: execute_query_def pool_submit_def execute_query_sync_def real_call_issued_def
      Let_def split: sum.splits)

theorem execute_query_cost_gate_witness:
  "\<not> pool_shutdown example_db \<and>
   execute_query example_settings (example_env 1000000000 example_rows unfenced_llm) example_db
      [] ''SELECT 1'' None =
     (Inr example_rows, [DryRun ''SELECT 1'', RunQuery ''SELECT 1'' []]) \<and>
   execute_query example_settings (example_env 2000000000 example_rows unfenced_llm) example_db
      [] ''SELECT 1'' None =
     (Inl (QueryCostError ''Query would process 2000000000 bytes''), [DryRun ''SELECT 1''])"
proof -
  have op: "\<not> pool_shutdown example_db" by (simp add: example_db_def)
  note a = execute_query_cost_gate [OF op, of example_settings
      "example_env 1000000000 example_rows unfenced_llm" "[]" "''SELECT 1''" None]
  note b = execute_query_cost_gate [OF op, of example_settings
      "example_env 2000000000 example_rows unfenced_llm" "[]" "''SELECT 1''" None]
  have da: "dry_run_reply (example_env 1000000000 example_rows unfenced_llm) [] ''SELECT 1'' = Inr 1000000000"
    by (simp add: example_env_def)
  have db: "dry_run_reply (example_env 2000000000 example_rows unfenced_llm) [] ''SELECT 1'' = Inr 2000000000"
    by (simp add: example_env_def)
  have ra: "run_query_reply (example_env 1000000000 example_rows unfenced_llm) [DryRun ''SELECT 1''] ''SELECT 1'' [] = Inr example_rows"
    by (simp add: example_env_def)
  have s: "str_int 2000000000 = ''2000000000''" by (simp add: str_int_def digit_char_def)
  from a da ra have A: "execute_query example_settings (example_env 1000000000 example_rows unfenced_llm) example_db
      [] ''SELECT 1'' None = (Inr example_rows, [DryRun ''SELECT 1'', RunQuery ''SELECT 1'' []])"
    by (simp add: example_settings_def split: prod.splits)
  from b db s have B: "execute_query example_settings (example_env 2000000000 example_rows unfenced_llm) example_db
      [] ''SELECT 1'' None =
     (Inl (QueryCostError ''Query would process 2000000000 bytes''), [DryRun ''SELECT 1''])"
    by (simp add: example_settings_def split: prod.splits)
  from op A B show ?thesis by simp
qed

section \<open>The validation grammar\<close>

lemma valid_not_reason: "startswith l ''Valid:'' \<Longrightarrow> \<not> startswith l ''Reason:''"
  by (cases l) (auto simp: startswith_def)

lemma parse_lines_last:
  "parse_lines ls v r =
     (let vs = filter (\<lambda>l. startswith l ''Valid:'') ls;
          rs = filter (\<lambda>l. startswith l ''Reason:'') ls
      in (if vs = [] then v else py_in ''yes'' (py_lower (last vs)),
          if rs = [] then r else py_strip (py_replace ''Reason:'' '''' (last rs))))"
proof (induction ls arbitrary: v r)
  case Nil
  show ?case by simp
next
  case (Cons l ls)
  show ?case
  proof (cases "startswith l ''Valid:''")
    case True
    then have "\<not> startswith l ''Reason:''" by (rule valid_not_reason)
    with True show ?thesis by (simp add: Cons.IH Let_def)
  next
    case False
    then show ?thesis by (simp add: Cons.IH Let_def)
  qed
qed

text \<open>
  Claim C5. \<open>parse_validation\<close> is a total function of the response. It answers
  \<open>(True, ok)\<close> for \<^verbatim>\<open>Valid: yes\<close> followed on the next line by \<^verbatim>\<open>Reason: ok\<close>,
  \<open>(False, empty)\<close> for \<^verbatim>\<open>Valid: no\<close> with \<^verbatim>\<open>Reason: empty\<close>, and \<open>False\<close> with the
  empty reason for every response that has neither a line starting with \<^verbatim>\<open>Valid:\<close> nor
  one starting with \<^verbatim>\<open>Reason:\<close>. In general the boolean is decided by the last line
  starting with \<^verbatim>\<open>Valid:\<close>, as the test whether \<^verbatim>\<open>yes\<close> occurs in the lower-cased line,
  and is \<open>False\<close> without such a line; the reason is the stripped remainder of the last
  line starting with \<^verbatim>\<open>Reason:\<close> and is empty without such a line. The middle component
  is always empty.
\<close>

theorem parse_validation_grammar:
  "parse_validation ''Valid: yes\<newline>Reason: ok'' = (True, '''', ''ok'') \<and>
   parse_validation ''Valid: no\<newline>Reason: empty'' = (False, '''', ''empty'') \<and>
   parse_validation ''Valid: YES'' = (True, '''', '''') \<and>
   (\<forall>response.
      let ls = py_split CHR ''\<newline>'' (py_strip response);
          vs = filter (\<lambda>l. startswith l ''Valid:'') ls;
          rs = filter (\<lambda>l. startswith l ''Reason:'') ls
      in (vs = [] \<and> rs = [] \<longrightarrow> parse_validation response = (False, '''', '''')) \<and>
         fst (parse_validation response) = (vs \<noteq> [] \<and> py_in ''yes'' (py_lower (last vs))) \<and>
         fst (snd (parse_validation response)) = '''' \<and>
         snd (snd (parse_validation response)) =
           (if rs = [] then '''' else py_strip (py_replace ''Reason:'' '''' (last rs))))"
proof -
  have ex1: "parse_validation ''Valid: yes\<newline>Reason: ok'' = (True, '''', ''ok'')"
    by (simp add: parse_validation_def py_strip_def is_space_def startswith_def py_lower_def
        lower_char_def lower_table_def)
  have ex2: "parse_validation ''Valid: no\<newline>Reason: empty'' = (False, '''', ''empty'')"
    by (simp add: parse_validation_def py_strip_def is_space_def startswith_def py_lower_def
        lower_char_def lower_table_def)
  have ex3: "parse_validation ''Valid: YES'' = (True, '''', '''')"
    by (simp add: parse_validation_def py_strip_def is_space_def startswith_def py_lower_def
        lower_char_def lower_table_def)
  have gen: "parse_validation response =
      (let ls = py_split CHR ''\<newline>'' (py_strip response);
           vs = filter (\<lambda>l. startswith l ''Valid:'') ls;
           rs = filter (\<lambda>l. startswith l ''Reason:'') ls
       in (vs \<noteq> [] \<and> py_in ''yes'' (py_lower (last vs)), '''',
           if rs = [] then '''' else py_strip (py_replace ''Reason:'' '''' (last rs))))"
    for response
    by (simp add: parse_validation_def parse_lines_last Let_def)
  show ?thesis
    using ex1 ex2 ex3 by (simp add: gen Let_def del: py_in.simps)
qed

theorem parse_validation_grammar_witness:
  "filter (\<lambda>l. startswith l ''Valid:'')
     (py_split CHR ''\<newline>'' (py_strip ''The query looks fine.'')) = [] \<and>
   filter (\<lambda>l. startswith l ''Reason:'')
     (py_split CHR ''\<newline>'' (py_strip ''The query looks fine.'')) = [] \<and>
   parse_validation ''The query looks fine.'' = (False, '''', '''')"
  using parse_validation_grammar
  by (simp add: Let_def py_strip_def is_space_def startswith_def)

section \<open>Query extraction\<close>

text \<open>
  Claim C2. Extraction should fail when the opening marker is absent. The source adds the
  marker's length to the answer of \<^verbatim>\<open>find\<close> before it compares with \<open>-1\<close>, so a response
  without the opening marker but with three backquotes at offset 5 or later is parsed: the
  text from offset 5 to the backquotes is taken as the query.
\<close>

theorem extract_query_unfenced:
  "extract_query ''I cannot answer ```'' = Some ''not answer''"
  by (simp add: extract_query_def py_find_def clamp_index_def startswith_def py_slice_def
      py_strip_def is_space_def)

text \<open>
  \<^verbatim>\<open>find\<close> never answers less than \<open>-1\<close>, so \<open>query_start\<close> is at least 5 and the first
  disjunct of the source's guard is never true: extraction fails exactly when no three
  backquotes are found from \<open>query_start\<close> on.
\<close>

lemma find_at_lower: "- 1 \<le> find_at sub s i"
  by (induction s arbitrary: i) auto

lemma py_find_lower: "- 1 \<le> py_find s sub start"
  by (simp add: py_find_def find_at_lower)

lemma query_start_guard_dead: "py_find response ''```sql'' 0 + 6 \<noteq> - 1"
  using py_find_lower [of response "''```sql''" 0] by simp

lemma extract_query_by_query_end:
  "extract_query response =
     (let query_start = py_find response ''```sql'' 0 + 6;
          query_end = py_find response ''```'' query_start
      in if query_end = - 1 then None
         else Some (py_strip (py_slice response query_start query_end)))"
  using query_start_guard_dead [of response] by (simp add: extract_query_def Let_def)

section \<open>Closing the connector\<close>

text \<open>
  Claim C7 says that every operation after \<open>close\<close> fails with a closed-connector
  error. The connector has no such error and keeps no closed flag: \<open>close\<close> only shuts
  the worker pool down. On a connector closed twice, \<open>test_connection\<close> still queries the
  warehouse and answers \<open>True\<close>.
\<close>

theorem test_connection_after_close:
  "test_connection (example_env 500 example_rows unfenced_llm)
     (fst (close (fst (close example_db [])) [PoolShutdown])) [PoolShutdown, PoolShutdown] =
   (True, [PoolShutdown, PoolShutdown, StartJob ''SELECT 1'', JobResult ''SELECT 1'' None None])"
  by (simp add: test_connection_def close_def example_env_def Let_def)

text \<open>
  Claim C7, as the code has it. \<open>close\<close> may be called again: the second call leaves the
  connector as the first left it. After \<open>close\<close>, \<open>test_connection\<close>,
  \<open>get_table_schema\<close> and \<open>paginated_query\<close> behave exactly as on the open connector,
  since none of them uses the pool. \<open>execute_query\<close> still performs the dry run and the
  cost check, and then fails when it submits to the pool that was shut down, with the
  pool's \<^verbatim>\<open>RuntimeError\<close>.
\<close>

theorem close_leaves_client_usable:
  "fst (close (fst (close self h)) h') = fst (close self h) \<and>
   test_connection env (fst (close self h)) h' = test_connection env self h' \<and>
   get_table_schema env (fst (close self h)) h' table_name =
     get_table_schema env self h' table_name \<and>
   paginated_query env (fst (close self h)) h' query page_size max_pages =
     paginated_query env self h' query page_size max_pages \<and>
   execute_query cfg env (fst (close self h)) h' query params =
     (case dry_run_reply env h' query of
        Inl e \<Rightarrow> (Inl e, h' @ [DryRun query])
      | Inr estimate \<Rightarrow>
          (Inl (if estimate > BIGQUERY_MAX_BYTES_PROCESSED cfg
                then QueryCostError (''Query would process '' @ str_int estimate @ '' bytes'')
                else PyError ''RuntimeError'' ''cannot schedule new futures after shutdown''),
           h' @ [DryRun query]))"
  by (simp add: close_def test_connection_def get_table_schema_def paginated_query_def
      execute_query_def pool_submit_def split: sum.splits)

theorem close_leaves_client_usable_witness:
  "execute_query example_settings (example_env 500 example_rows unfenced_llm)
     (fst (close example_db [])) [PoolShutdown] ''SELECT 1'' None =
   (Inl (PyError ''RuntimeError'' ''cannot schedule new futures after shutdown''),
    [PoolShutdown, DryRun ''SELECT 1'']) \<and>
   get_table_schema (example_env 500 example_rows unfenced_llm)
     (fst (close example_db [])) [PoolShutdown] ''events'' =
   (Inr [], [PoolShutdown, GetTable ''test-project.test_dataset.events''])"
  using close_leaves_client_usable [of example_db "[]" "[PoolShutdown]"
      "example_env 500 example_rows unfenced_llm" "''events''" "''SELECT 1''" 1 None
      example_settings None]
  by (simp add: example_env_def example_settings_def example_db_def get_table_schema_def)

section \<open>Pagination\<close>

text \<open>
  Claim C4. A traversal capped at \<open>max_pages\<close> pages should yield at most that many
  batches. The source compares \<open>page_count\<close> with \<open>max_pages\<close> before it increments
  \<open>page_count\<close>, which starts at zero, so the comparison first succeeds after
  \<open>max_pages + 1\<close> batches. With \<open>max_pages = 1\<close> and a warehouse that has three pages,
  two batches are yielded.
\<close>

theorem paginated_query_one_page_cap:
  "paginated_query (example_env 500 example_rows unfenced_llm) example_db [] ''SELECT 1'' 1 (Some 1) =
   Some (Inr (), [[[(''column1'', 1)]], [[(''column1'', 2)]]],
         [StartJob ''SELECT 1'', JobResult ''SELECT 1'' (Some 1) None,
          JobResult ''SELECT 1'' (Some 1) (Some ''p2'')])"
  by (simp add: paginated_query_def paginated_loop.simps example_env_def example_pages_def
      token_falsy_def page_cap_reached_def)

text \<open>
  In general a traversal capped at \<open>max_pages \<ge> 1\<close> always ends, and yields at most
  \<open>max_pages + 1\<close> batches.
\<close>

lemma paginated_loop_capped:
  assumes "1 \<le> m" and "0 \<le> page_count" and "page_count \<le> m"
  shows "\<exists>r ys h'. paginated_loop env query page_size (Some m) page_token page_count yielded h
            = Some (r, ys, h') \<and>
          length ys \<le> length yielded + nat (m + 1 - page_count)"
  using assms
proof (induction "nat (m - page_count)" arbitrary: page_count page_token yielded h)
  case 0
  then have cap: "page_cap_reached (Some m) page_count"
    by (simp add: page_cap_reached_def)
  show ?case
  proof (cases "job_result_reply env h query (Some page_size) page_token")
    case (Inl e)
    then show ?thesis by (subst paginated_loop.simps) simp
  next
    case (Inr page)
    with cap 0 show ?thesis
      by (subst paginated_loop.simps) (simp split: prod.splits)
  qed
next
  case (Suc n)
  show ?case
  proof (cases "job_result_reply env h query (Some page_size) page_token")
    case (Inl e)
    then show ?thesis by (subst paginated_loop.simps) simp
  next
    case (Inr page)
    obtain rows next_page_token where page: "page = (rows, next_page_token)"
      by (cases page)
    show ?thesis
    proof (cases "token_falsy next_page_token \<or> page_cap_reached (Some m) page_count")
      case True
      with Inr page Suc.prems show ?thesis
        by (subst paginated_loop.simps) auto
    next
      case False
      have lt: "page_count < m" using Suc.hyps(2) by simp
      have "\<exists>r ys h'. paginated_loop env query page_size (Some m) next_page_token
           (page_count + 1) (yielded @ [rows])
           (h @ [JobResult query (Some page_size) page_token]) = Some (r, ys, h') \<and>
          length ys \<le> length (yielded @ [rows]) + nat (m + 1 - (page_count + 1))"
      proof -
        have n: "n = nat (m - (page_count + 1))" using Suc.hyps(2) by simp
        have b: "0 \<le> page_count + 1" "page_count + 1 \<le> m"
          using Suc.prems lt by simp_all
        show ?thesis
          using Suc.hyps(1) [OF n Suc.prems(1) b, of next_page_token "yielded @ [rows]"
              "h @ [JobResult query (Some page_size) page_token]"] .
      qed
      then obtain r ys h' where rec: "paginated_loop env query page_size (Some m)
           next_page_token (page_count + 1) (yielded @ [rows])
           (h @ [JobResult query (Some page_size) page_token]) = Some (r, ys, h')"
        and len: "length ys \<le> length (yielded @ [rows]) + nat (m + 1 - (page_count + 1))"
        by blast
      have "paginated_loop env query page_size (Some m) page_token page_count yielded h =
          Some (r, ys, h')"
        using Inr page False rec by (subst paginated_loop.simps) simp
      moreover have "length ys \<le> length yielded + nat (m + 1 - page_count)"
        using len lt by simp
      ultimately show ?thesis by blast
    qed
  qed
qed

lemma paginated_query_cap_plus_one:
  assumes "1 \<le> m"
  shows "\<exists>r ys h'. paginated_query env self h query page_size (Some m) = Some (r, ys, h') \<and>
          length ys \<le> nat m + 1"
proof (cases "start_job_reply env h query")
  case (Inl e)
  then show ?thesis by (simp add: paginated_query_def)
next
  case (Inr u)
  obtain r ys h' where "paginated_loop env query page_size (Some m) None 0 []
      (h @ [StartJob query]) = Some (r, ys, h')" and "length ys \<le> length ([] :: 'a list list) + nat (m + 1 - 0)"
    using paginated_loop_capped [of m 0 env query page_size None "[]" "h @ [StartJob query]"]
      assms by auto
  with Inr assms show ?thesis
    by (simp add: paginated_query_def nat_add_distrib)
qed

section \<open>Repair calls in a trace\<close>

lemma repair_calls_append [simp]: "repair_calls (h @ k) = repair_calls h + repair_calls k"
  by (simp add: repair_calls_def)

lemma repair_calls_Cons [simp]:
  "repair_calls (ev # h) = (if is_repair ev then 1 else 0) + repair_calls h"
  by (simp add: repair_calls_def)

lemma repair_calls_Nil [simp]: "repair_calls [] = 0"
  by (simp add: repair_calls_def)

lemma on_text_repairs [simp]: "repair_calls (on_text rm t h) = repair_calls h"
  by (simp add: on_text_def)

lemma on_tool_error_repairs [simp]: "repair_calls (on_tool_error rm e h) = repair_calls h"
  by (simp add: on_tool_error_def)

lemma execute_query_repairs [simp]:
  "repair_calls (snd (execute_query cfg env self h query params)) = repair_calls h"
  by (simp add: execute_query_def pool_submit_def execute_query_sync_def Let_def
      split: sum.splits)




lemma alist_required_fields_repairs [simp]:
  "repair_calls (snd (alist_required_fields self env rm h question)) = repair_calls h"
  by (simp add: alist_required_fields_def agenerate_response_def Let_def split: sum.splits)

lemma agenerate_query_repairs [simp]:
  "repair_calls (snd (agenerate_query self env rm h question req_fields)) = repair_calls h"
  by (simp add: agenerate_query_def agenerate_response_def Let_def split: sum.splits)


section \<open>Validation of an empty result\<close>

text \<open>
  Claim C9. When the executed query returns zero rows, validation fails with the reason
  \<^verbatim>\<open>Query returned no results\<close>, whatever \<open>validate_empty_results\<close> is: the guard
  \<^verbatim>\<open>if not results\<close> comes first. The branch that the flag controls can never be taken, so
  the outcome and the trace of a validation do not depend on the flag at all.
\<close>

theorem empty_result_never_validates:
  "(extract_query response = Some query \<longrightarrow>
    execute_query cfg env (db self) h query None = (Inr [], h1) \<longrightarrow>
    avalidate_response cfg self env run_manager h question response =
      ((False, '''', ''Query returned no results''), h1)) \<and>
   avalidate_response cfg (self\<lparr>validate_empty_results := flag\<rparr>) env run_manager h question
      response =
   avalidate_response cfg self env run_manager h question response"
proof -
  have flag: "avalidate_try cfg (self\<lparr>validate_empty_results := flag\<rparr>) env h question response =
      avalidate_try cfg self env h question response"
    by (simp add: avalidate_try_def Let_def split: option.splits prod.splits sum.splits)
  show ?thesis
    by (simp add: avalidate_response_def flag) (simp add: avalidate_try_def)
qed

lemma extract_fenced: "extract_query ''```sql\<newline>SELECT * FROM events```'' = Some ''SELECT * FROM events''"
  by (simp add: extract_query_def py_find_def clamp_index_def startswith_def py_slice_def
      py_strip_def is_space_def)

theorem empty_result_never_validates_witness:
  "avalidate_response example_settings (example_tool\<lparr>validate_empty_results := False\<rparr>)
     (example_env 500 [] unfenced_llm) False [] ''show events''
     ''```sql\<newline>SELECT * FROM events```'' =
   ((False, '''', ''Query returned no results''),
    [DryRun ''SELECT * FROM events'', RunQuery ''SELECT * FROM events'' []])"
proof -
  have ex: "execute_query example_settings (example_env 500 [] unfenced_llm)
      (db (example_tool\<lparr>validate_empty_results := False\<rparr>)) [] ''SELECT * FROM events'' None =
      (Inr [], [DryRun ''SELECT * FROM events'', RunQuery ''SELECT * FROM events'' []])"
    by (simp add: execute_query_def pool_submit_def execute_query_sync_def example_env_def
        example_tool_def example_db_def example_settings_def)
  show ?thesis
    using empty_result_never_validates [of "''```sql\<newline>SELECT * FROM events```''"
        "''SELECT * FROM events''" example_settings "example_env 500 [] unfenced_llm"
        "example_tool\<lparr>validate_empty_results := False\<rparr>" "[]"
        "[DryRun ''SELECT * FROM events'', RunQuery ''SELECT * FROM events'' []]"
        False "''show events''" False] extract_fenced ex
    by simp
qed

section \<open>The bound of the synthesis loop\<close>






lemma extract_unfenced: "extract_query ''SELECT * FROM events'' = None"
  by (simp add: extract_query_def py_find_def clamp_index_def startswith_def)




section \<open>The final response without the LLM check\<close>

lemma py_slice_prefix: "0 \<le> n \<Longrightarrow> py_slice xs 0 n = take (nat n) xs"
  by (simp add: py_slice_def clamp_index_def min_def Let_def)

text \<open>
  Claim C8 says that the final tool response is the validated query text, the separator
  and the summary. \<^verbatim>\<open>_arun\<close> builds that response only inside
  \<^verbatim>\<open>if run_manager is not None\<close>. Called without a run manager it falls through to
  \<^verbatim>\<open>return result or "no_data"\<close>: for a well-fenced response that validates at once on
  two rows, the caller receives the generated response text alone, with no separator and
  no summary.
\<close>

theorem query_only_without_run_manager:
  "arun example_settings (example_tool\<lparr>validate_with_llm := False\<rparr>)
     (example_env 500 example_rows
        (scripted_llm [Inr ''user_id, event_name'', Inr ''```sql\<newline>SELECT * FROM events```'']))
     False [] ''show events'' =
   (Inr ''```sql\<newline>SELECT * FROM events```'',
    [Generate Selection [SystemMessage '''', HumanMessage ''''],
     Generate Generation [SystemMessage ''You are a test system'', HumanMessage ''show events''],
     DryRun ''SELECT * FROM events'', RunQuery ''SELECT * FROM events'' []])"
  by (simp add: arun_def arun_try_def alist_required_fields_def agenerate_query_def
      validation_loop.simps avalidate_response_def avalidate_try_def
      agenerate_response_def on_text_def format_opt_def or_empty_def or_no_data_def
      execute_query_def pool_submit_def execute_query_sync_def
      extract_fenced example_env_def example_tool_def scripted_llm_def example_db_def
      example_settings_def example_rows_def Let_def)

text \<open>
  Claim C8, as the code has it. Let the tool be called with a run manager and without the
  LLM check. When field selection and generation answer, the generated response has an
  extractable query and its execution returns at least one row, the loop stops at the
  first validation with no repair call, and the final response is the generated response
  text, then the separator of \<open>construct_final_response\<close>, then the summary
  \<^verbatim>\<open>total rows: N, first K rows: [...]\<close> over the result's slice up to \<open>nb_example_rows\<close>,
  which for a non-negative \<open>nb_example_rows\<close> is its first \<open>nb_example_rows\<close> rows. The
  summary is computed from the result list by slicing, which builds a new list; in this
  model a result is a value, and nothing can change it.
\<close>

theorem first_attempt_done_without_llm_check:
  assumes parse: "parse_raw_reply env raw = Inr question"
      and sel: "alist_required_fields self env True h question = (Inr req_fields, h1)"
      and gen: "agenerate_query self env True h1 question req_fields = (Inr query_response, h2)"
      and ext: "extract_query query_response = Some query"
      and exe: "execute_query cfg env (db self) h2 query None = (Inr results, h3)"
      and rows: "results \<noteq> []"
      and nollm: "\<not> validate_with_llm self"
  shows "arun cfg self env True h raw =
           (Inr (query_response @ ''\<newline>\<newline>Results: '' @
                 ''total rows: '' @ str_nat (length results) @ '', first '' @
                 str_nat (length (py_slice results 0 (nb_example_rows self))) @ '' rows: '' @
                 repr_list (row_repr env) (py_slice results 0 (nb_example_rows self))),
            h3 @ [OnText (Some query_response)]) \<and>
         repair_calls (snd (arun cfg self env True h raw)) = repair_calls h \<and>
         (0 \<le> nb_example_rows self \<longrightarrow>
            py_slice results 0 (nb_example_rows self) = take (nat (nb_example_rows self)) results)"
proof -
  have val: "avalidate_response cfg self env True h2 question query_response =
      ((True, format_results (row_repr env) (nb_example_rows self) results, ''''), h3)"
    using ext exe rows nollm by (simp add: avalidate_response_def avalidate_try_def Let_def)
  have loop: "validation_loop cfg self env True question req_fields query_response 0 False ''''
      h2 = (Inr (Some query_response, query_response, True,
                 format_results (row_repr env) (nb_example_rows self) results), h3)"
    using val by (simp add: validation_loop.simps)
  have run: "arun cfg self env True h raw =
      (Inr (construct_final_response query_response
              (format_results (row_repr env) (nb_example_rows self) results)),
       h3 @ [OnText (Some query_response)])"
    using parse sel gen loop by (simp add: arun_def arun_try_def)
  have c1: "repair_calls h1 = repair_calls h"
    using alist_required_fields_repairs [of self env True h question] sel by simp
  have c2: "repair_calls h2 = repair_calls h1"
    using agenerate_query_repairs [of self env True h1 question req_fields] gen by simp
  have c3: "repair_calls h3 = repair_calls h2"
    using execute_query_repairs [of cfg env "db self" h2 query None] exe by simp
  show ?thesis
    using run c1 c2 c3
    by (simp add: construct_final_response_def format_results_def Let_def py_slice_prefix)
qed

theorem first_attempt_done_without_llm_check_witness:
  "arun example_settings (example_tool\<lparr>validate_with_llm := False\<rparr>)
     (example_env 500 example_rows
        (scripted_llm [Inr ''user_id, event_name'', Inr ''```sql\<newline>SELECT * FROM events```'']))
     True [] ''show events'' =
   (Inr (''```sql\<newline>SELECT * FROM events```'' @ ''\<newline>\<newline>Results: '' @
         ''total rows: 2, first 2 rows: '' @
         ''[{'' @ [CHR 0x27] @ ''users'' @ [CHR 0x27] @ '': 100, '' @
                 [CHR 0x27] @ ''sessions'' @ [CHR 0x27] @ '': 150}, '' @
          ''{'' @ [CHR 0x27] @ ''users'' @ [CHR 0x27] @ '': 120, '' @
                 [CHR 0x27] @ ''sessions'' @ [CHR 0x27] @ '': 180}]''),
    [OnText (Some ''list_fields''),
     Generate Selection [SystemMessage '''', HumanMessage ''''],
     OnText (Some ''generate_query''),
     Generate Generation [SystemMessage ''You are a test system'', HumanMessage ''show events''],
     DryRun ''SELECT * FROM events'', RunQuery ''SELECT * FROM events'' [],
     OnText (Some ''```sql\<newline>SELECT * FROM events```'')])"
proof -
  let ?llm = "scripted_llm [Inr ''user_id, event_name'', Inr ''```sql\<newline>SELECT * FROM events```'']"
  let ?env = "example_env 500 example_rows ?llm"
  let ?tool = "example_tool\<lparr>validate_with_llm := False\<rparr>"
  let ?h1 = "[OnText (Some ''list_fields''),
     Generate Selection [SystemMessage '''', HumanMessage '''']]"
  let ?h2 = "?h1 @ [OnText (Some ''generate_query''),
     Generate Generation [SystemMessage ''You are a test system'', HumanMessage ''show events'']]"
  let ?h3 = "?h2 @ [DryRun ''SELECT * FROM events'', RunQuery ''SELECT * FROM events'' []]"
  have parse: "parse_raw_reply ?env ''show events'' = Inr ''show events''"
    by (simp add: example_env_def)
  have sel: "alist_required_fields ?tool ?env True [] ''show events'' =
      (Inr ''user_id, event_name'', ?h1)"
    by (simp add: alist_required_fields_def agenerate_response_def on_text_def format_opt_def
        or_empty_def example_env_def example_tool_def scripted_llm_def Let_def py_join_def
        py_strip_def is_space_def)
  have gen: "agenerate_query ?tool ?env True ?h1 ''show events'' ''user_id, event_name'' =
      (Inr ''```sql\<newline>SELECT * FROM events```'', ?h2)"
    by (simp add: agenerate_query_def agenerate_response_def on_text_def
        example_env_def example_tool_def scripted_llm_def Let_def)
  have exe: "execute_query example_settings ?env (db ?tool) ?h2 ''SELECT * FROM events'' None =
      (Inr example_rows, ?h3)"
    by (simp add: execute_query_def pool_submit_def execute_query_sync_def example_env_def
        example_tool_def example_db_def example_settings_def)
  have rows: "example_rows \<noteq> []" by (simp add: example_rows_def)
  have nollm: "\<not> validate_with_llm ?tool" by simp
  have n: "nb_example_rows ?tool = 3" "row_repr ?env = dict_repr"
    by (simp_all add: example_tool_def example_env_def)
  have summary: "repr_list dict_repr (py_slice example_rows 0 3) =
      ''[{'' @ [CHR 0x27] @ ''users'' @ [CHR 0x27] @ '': 100, '' @
                 [CHR 0x27] @ ''sessions'' @ [CHR 0x27] @ '': 150}, '' @
          ''{'' @ [CHR 0x27] @ ''users'' @ [CHR 0x27] @ '': 120, '' @
                 [CHR 0x27] @ ''sessions'' @ [CHR 0x27] @ '': 180}]''"
    by (simp add: repr_list_def dict_repr_def py_join_def py_slice_def clamp_index_def
        example_rows_def str_int_def digit_char_def)
  have len: "length example_rows = 2" "length (py_slice example_rows 0 3) = 2"
    by (simp_all add: example_rows_def py_slice_def clamp_index_def)
  show ?thesis
    using first_attempt_done_without_llm_check [OF parse sel gen extract_fenced exe rows nollm]
    by (simp add: n summary len digit_char_def)
qed

section \<open>The final response after the LLM check\<close>

lemma parse_validation_summary: "fst (snd (parse_validation validation_response)) = ''''"
  by (simp add: parse_validation_def Let_def split: prod.splits)

lemma avalidate_try_llm_summary:
  assumes "validate_with_llm self"
      and "avalidate_try cfg self env h question response = (Inr (v, rs, c), h1)"
  shows "rs = ''''"
proof (cases "extract_query response")
  case None
  with assms show ?thesis by (simp add: avalidate_try_def)
next
  case (Some query)
  obtain r h2 where ex: "execute_query cfg env (db self) h query None = (r, h2)"
    by (metis prod.exhaust)
  have pv: "rs' = []" if "parse_validation r' = (v', rs', c')" for r' v' rs' c'
    using parse_validation_summary [of r'] that by simp
  show ?thesis
    using assms Some ex
    by (auto simp: avalidate_try_def agenerate_response_def Let_def
        split: sum.splits if_splits dest: pv)
qed

lemma avalidate_response_llm_summary:
  assumes "validate_with_llm self"
      and "avalidate_response cfg self env rm h question response = ((v, rs, c), h1)"
  shows "rs = ''''"
proof -
  obtain r h2 where t: "avalidate_try cfg self env h question response = (r, h2)"
    by (metis prod.exhaust)
  show ?thesis
  proof (cases r)
    case (Inl e)
    with assms t show ?thesis by (simp add: avalidate_response_def)
  next
    case (Inr outcome)
    with assms t avalidate_try_llm_summary [of self cfg env h question response v rs c h2]
    show ?thesis by (simp add: avalidate_response_def)
  qed
qed

lemma validation_loop_llm_summary:
  assumes "validate_with_llm self"
      and "validation_loop cfg self env rm question req_fields query_response retries
             is_valid results_str h = (Inr (result, final_response, is_valid', results_str'), h')"
      and "results_str = ''''"
  shows "results_str' = ''''"
  using assms
proof (induction cfg self env rm question req_fields query_response retries is_valid
    results_str h rule: validation_loop.induct)
  case (1 cfg self env rm question req_fields query_response retries is_valid results_str h)
  show ?case
  proof (cases "retries \<le> 3")
    case False
    with "1.prems" show ?thesis by (simp add: validation_loop.simps)
  next
    case True
    obtain v rs c h1 where val:
      "avalidate_response cfg self env rm h question query_response = ((v, rs, c), h1)"
      by (metis prod.exhaust)
    have rs: "rs = ''''"
      using avalidate_response_llm_summary [OF "1.prems"(1) val] .
    show ?thesis
    proof (cases v)
      case True
      with \<open>retries \<le> 3\<close> val rs "1.prems"(2) show ?thesis
        by (simp add: validation_loop.simps)
    next
      case False
      obtain r h2 where imp:
        "aimprove_query self env rm h1 question query_response c req_fields = (r, h2)"
        by (metis prod.exhaust)
      show ?thesis
      proof (cases r)
        case (Inl e)
        with \<open>retries \<le> 3\<close> val False imp "1.prems"(2) show ?thesis
          by (simp add: validation_loop.simps)
      next
        case (Inr improved)
        have rec: "validation_loop cfg self env rm question req_fields improved (retries + 1)
            v rs h2 = (Inr (result, final_response, is_valid', results_str'), h')"
          using \<open>retries \<le> 3\<close> val False imp Inr "1.prems"(2)
          by (simp add: validation_loop.simps)
        show ?thesis
          using "1.IH" [OF \<open>retries \<le> 3\<close> val [symmetric] refl refl _ imp [symmetric] Inr
              "1.prems"(1) rec rs] False by simp
      qed
    qed
  qed
qed

text \<open>
  Claim C10 says that on the LLM-validated path the final tool response is the query text
  followed by the separator and nothing. As for C8, that response is built only when a
  run manager is passed: called without one, the tool returns the generated response text
  alone, without the separator.
\<close>

theorem query_only_after_llm_validation:
  "arun example_settings example_tool
     (example_env 500 example_rows
        (scripted_llm [Inr ''user_id, event_name'', Inr ''```sql\<newline>SELECT * FROM events```'',
                       Inr ''Valid: yes\<newline>Reason: Query returns data'']))
     False [] ''show events'' =
   (Inr ''```sql\<newline>SELECT * FROM events```'',
    [Generate Selection [SystemMessage '''', HumanMessage ''''],
     Generate Generation [SystemMessage ''You are a test system'', HumanMessage ''show events''],
     DryRun ''SELECT * FROM events'', RunQuery ''SELECT * FROM events'' [],
     Generate Validation [SystemMessage ''validate'', HumanMessage '''']])"
  by (simp add: arun_def arun_try_def alist_required_fields_def agenerate_query_def
      validation_loop.simps avalidate_response_def avalidate_try_def
      agenerate_response_def on_text_def format_opt_def or_empty_def or_no_data_def
      execute_query_def pool_submit_def execute_query_sync_def parse_validation_def
      py_strip_def is_space_def startswith_def py_lower_def lower_char_def lower_table_def
      extract_fenced example_env_def example_tool_def scripted_llm_def example_db_def
      example_settings_def example_rows_def Let_def)

text \<open>
  Claim C10, as the code has it. The second component of \<open>parse_validation\<close> is always
  empty, so with \<open>validate_with_llm\<close> set every validation answers an empty results
  summary, and whenever the loop ends validated the final response of a tool called with
  a run manager is the candidate's text followed by the separator and nothing: the row
  count and the sample computed before the consultation never reach the caller.
\<close>

theorem llm_validated_response_has_no_summary:
  "fst (snd (parse_validation validation_response)) = '''' \<and>
   (validate_with_llm self \<longrightarrow>
    avalidate_response cfg self env run_manager h question response =
      ((is_valid, results_str, complaints), h') \<longrightarrow>
    results_str = '''') \<and>
   (validate_with_llm self \<longrightarrow>
    parse_raw_reply env raw = Inr question \<longrightarrow>
    alist_required_fields self env True h question = (Inr req_fields, h1) \<longrightarrow>
    agenerate_query self env True h1 question req_fields = (Inr query_response, h2) \<longrightarrow>
    validation_loop cfg self env True question req_fields query_response 0 False '''' h2 =
      (Inr (result, final_response, True, summary), h3) \<longrightarrow>
    arun cfg self env True h raw =
      (Inr (final_response @ ''\<newline>\<newline>Results: ''), h3 @ [OnText result]))"
proof -
  have third: "arun cfg self env True h raw =
      (Inr (final_response @ ''\<newline>\<newline>Results: ''), h3 @ [OnText result])"
    if llm: "validate_with_llm self"
      and parse: "parse_raw_reply env raw = Inr question"
      and sel: "alist_required_fields self env True h question = (Inr req_fields, h1)"
      and gen: "agenerate_query self env True h1 question req_fields = (Inr query_response, h2)"
      and loop: "validation_loop cfg self env True question req_fields query_response 0 False
          '''' h2 = (Inr (result, final_response, True, summary), h3)"
  proof -
    have "summary = ''''"
      using validation_loop_llm_summary [OF llm loop] by simp
    with parse sel gen loop show ?thesis
      by (simp add: arun_def arun_try_def construct_final_response_def)
  qed
  show ?thesis
    using parse_validation_summary avalidate_response_llm_summary third by blast
qed

theorem llm_validated_response_has_no_summary_witness:
  "validate_with_llm example_tool \<and>
   arun example_settings example_tool
     (example_env 500 example_rows
        (scripted_llm [Inr ''user_id, event_name'', Inr ''```sql\<newline>SELECT * FROM events```'',
                       Inr ''Valid: yes\<newline>Reason: Query returns data'']))
     True [] ''show events'' =
   (Inr (''```sql\<newline>SELECT * FROM events```'' @ ''\<newline>\<newline>Results: ''),
    [OnText (Some ''list_fields''),
     Generate Selection [SystemMessage '''', HumanMessage ''''],
     OnText (Some ''generate_query''),
     Generate Generation [SystemMessage ''You are a test system'', HumanMessage ''show events''],
     DryRun ''SELECT * FROM events'', RunQuery ''SELECT * FROM events'' [],
     Generate Validation [SystemMessage ''validate'', HumanMessage ''''],
     OnText (Some ''```sql\<newline>SELECT * FROM events```'')])"
proof -
  let ?llm = "scripted_llm [Inr ''user_id, event_name'', Inr ''```sql\<newline>SELECT * FROM events```'',
                       Inr ''Valid: yes\<newline>Reason: Query returns data'']"
  let ?env = "example_env 500 example_rows ?llm"
  let ?h1 = "[OnText (Some ''list_fields''),
     Generate Selection [SystemMessage '''', HumanMessage '''']]"
  let ?h2 = "?h1 @ [OnText (Some ''generate_query''),
     Generate Generation [SystemMessage ''You are a test system'', HumanMessage ''show events'']]"
  let ?h3 = "?h2 @ [DryRun ''SELECT * FROM events'', RunQuery ''SELECT * FROM events'' [],
     Generate Validation [SystemMessage ''validate'', HumanMessage '''']]"
  have llm: "validate_with_llm example_tool" by (simp add: example_tool_def)
  have parse: "parse_raw_reply ?env ''show events'' = Inr ''show events''"
    by (simp add: example_env_def)
  have sel: "alist_required_fields example_tool ?env True [] ''show events'' =
      (Inr ''user_id, event_name'', ?h1)"
    by (simp add: alist_required_fields_def agenerate_response_def on_text_def format_opt_def
        or_empty_def example_env_def example_tool_def scripted_llm_def Let_def py_join_def
        py_strip_def is_space_def)
  have gen: "agenerate_query example_tool ?env True ?h1 ''show events'' ''user_id, event_name'' =
      (Inr ''```sql\<newline>SELECT * FROM events```'', ?h2)"
    by (simp add: agenerate_query_def agenerate_response_def on_text_def
        example_env_def example_tool_def scripted_llm_def Let_def)
  have loop: "validation_loop example_settings example_tool ?env True ''show events''
      ''user_id, event_name'' ''```sql\<newline>SELECT * FROM events```'' 0 False '''' ?h2 =
      (Inr (Some ''```sql\<newline>SELECT * FROM events```'', ''```sql\<newline>SELECT * FROM events```'',
            True, ''''), ?h3)"
    by (simp add: validation_loop.simps avalidate_response_def avalidate_try_def
      agenerate_response_def format_opt_def or_empty_def
      execute_query_def pool_submit_def execute_query_sync_def parse_validation_def
      py_strip_def is_space_def startswith_def py_lower_def lower_char_def lower_table_def
      extract_fenced example_env_def example_tool_def scripted_llm_def example_db_def
      example_settings_def example_rows_def Let_def)
  show ?thesis
    using llm_validated_response_has_no_summary [of "''''" example_tool example_settings
        ?env True "[]" "''show events''" "''''" False "''''" "''''" "[]"
        "''show events''" "''user_id, event_name''" ?h1
        "''```sql\<newline>SELECT * FROM events```''" ?h2
        "Some ''```sql\<newline>SELECT * FROM events```''" "''```sql\<newline>SELECT * FROM events```''"
        "''''" ?h3]
      llm parse sel gen loop
    by simp
qed

section \<open>Exceptions of the text generation capability\<close>

text \<open>
  Claim C6 says that an exception of the text generation capability is never turned into
  a repair cycle, at any step. The validation consultation runs inside the \<^verbatim>\<open>try\<close> block of
  \<^verbatim>\<open>_avalidate_response\<close>, whose handler catches every exception and answers a failed
  validation. In a world where the capability raises at every validation consultation and
  answers a well-fenced query otherwise, the run makes four repair calls and ends with
  \<^verbatim>\<open>no_data\<close>; the exception never reaches the caller.
\<close>

theorem consultation_error_is_repaired:
  "generate_reply (example_env 500 example_rows fenced_llm)
     [Generate Selection [SystemMessage '''', HumanMessage ''''],
      Generate Generation [SystemMessage ''You are a test system'', HumanMessage ''show events''],
      DryRun ''SELECT * FROM events'', RunQuery ''SELECT * FROM events'' []]
     [SystemMessage ''validate'', HumanMessage ''''] =
     Inl (PyError ''TimeoutError'' ''model timed out'') \<and>
   fst (arun example_settings example_tool (example_env 500 example_rows fenced_llm) False []
          ''show events'') = Inr ''no_data'' \<and>
   repair_calls (snd (arun example_settings example_tool
          (example_env 500 example_rows fenced_llm) False [] ''show events'')) = 4"
  by (simp add: arun_def arun_try_def alist_required_fields_def agenerate_query_def
      validation_loop.simps avalidate_response_def avalidate_try_def aimprove_query_def
      agenerate_response_def on_text_def on_tool_error_def format_opt_def or_empty_def
      or_no_data_def execute_query_def pool_submit_def execute_query_sync_def
      extract_fenced example_env_def example_tool_def fenced_llm_def example_db_def
      example_settings_def example_rows_def Let_def py_join_def py_strip_def is_space_def)

lemma arun_failed:
  assumes "parse_raw_reply env raw = Inr question"
      and "arun_try cfg self env rm h question = (Inl e, h')"
  shows "arun cfg self env rm h raw =
           (if rm then (Inr (exn_repr env e), h' @ [OnToolError e]) else (Inl e, h'))"
  using assms by (simp add: arun_def)

lemma selection_raises:
  assumes "format_opt (prompt_selection self) (\<lambda>t. t question) = Inr content"
      and "generate_reply env (on_text rm (Some ''list_fields'') h)
             [SystemMessage (or_empty (system_context_selection self)), HumanMessage content]
           = Inl e"
  shows "arun_try cfg self env rm h question =
           (Inl e, on_text rm (Some ''list_fields'') h @
                   [Generate Selection
                      [SystemMessage (or_empty (system_context_selection self)),
                       HumanMessage content]])"
  using assms
  by (simp add: arun_try_def alist_required_fields_def agenerate_response_def Let_def)

lemma generation_raises:
  assumes "alist_required_fields self env rm h question = (Inr req_fields, h1)"
      and "prompt_message self req_fields question = Inr content"
      and "generate_reply env (on_text rm (Some ''generate_query'') h1)
             [SystemMessage (system_context self), HumanMessage content] = Inl e"
  shows "arun_try cfg self env rm h question =
           (Inl e, on_text rm (Some ''generate_query'') h1 @
                   [Generate Generation
                      [SystemMessage (system_context self), HumanMessage content]])"
  using assms
  by (simp add: arun_try_def agenerate_query_def agenerate_response_def Let_def)

lemma repair_raises:
  assumes "retries \<le> 3"
      and "avalidate_response cfg self env rm h question query_response =
             ((False, rs, complaints), h1)"
      and "format_opt (prompt_refinement self)
             (\<lambda>t. t req_fields question query_response complaints) = Inr content"
      and "generate_reply env (on_text rm (Some ''improve_query'') h1)
             [SystemMessage (system_context self), HumanMessage content] = Inl e"
  shows "validation_loop cfg self env rm question req_fields query_response retries
           is_valid results_str h =
           (Inl e, on_text rm (Some ''improve_query'') h1 @
                   [Generate Refinement
                      [SystemMessage (system_context self), HumanMessage content]])"
  using assms
  by (simp add: validation_loop.simps aimprove_query_def agenerate_response_def Let_def)

lemma loop_exception:
  assumes "alist_required_fields self env rm h question = (Inr req_fields, h1)"
      and "agenerate_query self env rm h1 question req_fields = (Inr query_response, h2)"
      and "validation_loop cfg self env rm question req_fields query_response 0 False ''''
             h2 = (Inl e, h3)"
  shows "arun_try cfg self env rm h question = (Inl e, h3)"
  using assms by (simp add: arun_try_def)

lemma consultation_raise_converted:
  assumes "extract_query query_response = Some query"
      and "execute_query cfg env (db self) h query None = (Inr results, h1)"
      and "results \<noteq> []"
      and "validate_with_llm self"
      and "format_opt (prompt_validation self)
             (\<lambda>t. t query_response
                     (format_results (row_repr env) (nb_example_rows self) results) question)
           = Inr content"
      and "generate_reply env h1
             [SystemMessage (or_empty (system_context_validation self)), HumanMessage content]
           = Inl e"
  shows "avalidate_response cfg self env rm h question query_response =
           ((False, '''', exn_str e),
            on_tool_error rm e
              (h1 @ [Generate Validation
                       [SystemMessage (or_empty (system_context_validation self)),
                        HumanMessage content]]))"
  using assms
  by (simp add: avalidate_response_def avalidate_try_def agenerate_response_def Let_def)

lemma consultation_raise_repaired:
  assumes "retries \<le> 3"
      and "avalidate_response cfg self env rm h question query_response =
             ((False, '''', feedback), h1)"
  shows "validation_loop cfg self env rm question req_fields query_response retries
           is_valid results_str h =
         (case aimprove_query self env rm h1 question query_response feedback req_fields of
            (Inl e', h2) \<Rightarrow> (Inl e', h2)
          | (Inr improved, h2) \<Rightarrow>
              validation_loop cfg self env rm question req_fields improved (retries + 1)
                False '''' h2)"
  using assms by (simp add: validation_loop.simps)

text \<open>
  Claim C6, as the code has it, step by step. An exception \<open>e\<close> that the capability
  raises during field selection, during query generation or during a repair is not
  retried: the trace ends with the call that raised, and the tool fails with \<open>e\<close>, which
  it raises to the caller, or, when a run manager is present, reports to the run manager
  and returns as \<^verbatim>\<open>repr(e)\<close>. For a repair this holds at every iteration of the loop (third
  and fourth part). An exception raised during the validation consultation is caught: the
  validation answers \<open>False\<close> with the exception's text as the reason, and the loop goes on
  with a repair call that gets that text as feedback (fifth part).
\<close>

theorem generation_errors_by_step:
  "(parse_raw_reply env raw = Inr question \<longrightarrow>
    format_opt (prompt_selection self) (\<lambda>t. t question) = Inr content \<longrightarrow>
    generate_reply env (on_text rm (Some ''list_fields'') h)
      [SystemMessage (or_empty (system_context_selection self)), HumanMessage content] = Inl e \<longrightarrow>
    hs = on_text rm (Some ''list_fields'') h @
         [Generate Selection
            [SystemMessage (or_empty (system_context_selection self)), HumanMessage content]] \<longrightarrow>
    arun cfg self env rm h raw =
      (if rm then (Inr (exn_repr env e), hs @ [OnToolError e]) else (Inl e, hs))) \<and>
   (parse_raw_reply env raw = Inr question \<longrightarrow>
    alist_required_fields self env rm h question = (Inr req_fields, h1) \<longrightarrow>
    prompt_message self req_fields question = Inr content \<longrightarrow>
    generate_reply env (on_text rm (Some ''generate_query'') h1)
      [SystemMessage (system_context self), HumanMessage content] = Inl e \<longrightarrow>
    hs = on_text rm (Some ''generate_query'') h1 @
         [Generate Generation [SystemMessage (system_context self), HumanMessage content]] \<longrightarrow>
    arun cfg self env rm h raw =
      (if rm then (Inr (exn_repr env e), hs @ [OnToolError e]) else (Inl e, hs))) \<and>
   (retries \<le> 3 \<longrightarrow>
    avalidate_response cfg self env rm h question query_response =
      ((False, rs, complaints), h1) \<longrightarrow>
    format_opt (prompt_refinement self)
      (\<lambda>t. t req_fields question query_response complaints) = Inr content \<longrightarrow>
    generate_reply env (on_text rm (Some ''improve_query'') h1)
      [SystemMessage (system_context self), HumanMessage content] = Inl e \<longrightarrow>
    validation_loop cfg self env rm question req_fields query_response retries
      is_valid results_str h =
      (Inl e, on_text rm (Some ''improve_query'') h1 @
              [Generate Refinement [SystemMessage (system_context self), HumanMessage content]])) \<and>
   (parse_raw_reply env raw = Inr question \<longrightarrow>
    alist_required_fields self env rm h question = (Inr req_fields, h1) \<longrightarrow>
    agenerate_query self env rm h1 question req_fields = (Inr query_response, h2) \<longrightarrow>
    validation_loop cfg self env rm question req_fields query_response 0 False '''' h2 =
      (Inl e, hs) \<longrightarrow>
    arun cfg self env rm h raw =
      (if rm then (Inr (exn_repr env e), hs @ [OnToolError e]) else (Inl e, hs))) \<and>
   (retries \<le> 3 \<longrightarrow>
    extract_query query_response = Some query \<longrightarrow>
    execute_query cfg env (db self) h query None = (Inr results, h1) \<longrightarrow>
    results \<noteq> [] \<longrightarrow>
    validate_with_llm self \<longrightarrow>
    format_opt (prompt_validation self)
      (\<lambda>t. t query_response
              (format_results (row_repr env) (nb_example_rows self) results) question)
      = Inr content \<longrightarrow>
    generate_reply env h1
      [SystemMessage (or_empty (system_context_validation self)), HumanMessage content]
      = Inl e \<longrightarrow>
    hs = on_tool_error rm e
           (h1 @ [Generate Validation
                    [SystemMessage (or_empty (system_context_validation self)),
                     HumanMessage content]]) \<longrightarrow>
    avalidate_response cfg self env rm h question query_response =
      ((False, '''', exn_str e), hs) \<and>
    validation_loop cfg self env rm question req_fields query_response retries
      is_valid results_str h =
      (case aimprove_query self env rm hs question query_response (exn_str e) req_fields of
         (Inl e', h2) \<Rightarrow> (Inl e', h2)
       | (Inr improved, h2) \<Rightarrow>
           validation_loop cfg self env rm question req_fields improved (retries + 1)
             False '''' h2))"
proof (intro conjI impI)
  assume "parse_raw_reply env raw = Inr question"
    and "format_opt (prompt_selection self) (\<lambda>t. t question) = Inr content"
    and "generate_reply env (on_text rm (Some ''list_fields'') h)
      [SystemMessage (or_empty (system_context_selection self)), HumanMessage content] = Inl e"
    and "hs = on_text rm (Some ''list_fields'') h @
         [Generate Selection
            [SystemMessage (or_empty (system_context_selection self)), HumanMessage content]]"
  then show "arun cfg self env rm h raw =
      (if rm then (Inr (exn_repr env e), hs @ [OnToolError e]) else (Inl e, hs))"
    using arun_failed [OF _ selection_raises, of env raw question self content rm h e cfg]
    by simp
next
  assume "parse_raw_reply env raw = Inr question"
    and "alist_required_fields self env rm h question = (Inr req_fields, h1)"
    and "prompt_message self req_fields question = Inr content"
    and "generate_reply env (on_text rm (Some ''generate_query'') h1)
      [SystemMessage (system_context self), HumanMessage content] = Inl e"
    and "hs = on_text rm (Some ''generate_query'') h1 @
         [Generate Generation [SystemMessage (system_context self), HumanMessage content]]"
  then show "arun cfg self env rm h raw =
      (if rm then (Inr (exn_repr env e), hs @ [OnToolError e]) else (Inl e, hs))"
    using arun_failed [OF _ generation_raises, of env raw question self rm h req_fields h1
        content e cfg]
    by simp
next
  assume "retries \<le> 3"
    and "avalidate_response cfg self env rm h question query_response =
      ((False, rs, complaints), h1)"
    and "format_opt (prompt_refinement self)
      (\<lambda>t. t req_fields question query_response complaints) = Inr content"
    and "generate_reply env (on_text rm (Some ''improve_query'') h1)
      [SystemMessage (system_context self), HumanMessage content] = Inl e"
  then show "validation_loop cfg self env rm question req_fields query_response retries
      is_valid results_str h =
      (Inl e, on_text rm (Some ''improve_query'') h1 @
              [Generate Refinement [SystemMessage (system_context self), HumanMessage content]])"
    by (rule repair_raises)
next
  assume "parse_raw_reply env raw = Inr question"
    and "alist_required_fields self env rm h question = (Inr req_fields, h1)"
    and "agenerate_query self env rm h1 question req_fields = (Inr query_response, h2)"
    and "validation_loop cfg self env rm question req_fields query_response 0 False '''' h2 =
      (Inl e, hs)"
  then show "arun cfg self env rm h raw =
      (if rm then (Inr (exn_repr env e), hs @ [OnToolError e]) else (Inl e, hs))"
    using arun_failed [OF _ loop_exception, of env raw question self rm h req_fields h1
        query_response h2 cfg e hs]
    by simp
next
  assume a: "retries \<le> 3"
    "extract_query query_response = Some query"
    "execute_query cfg env (db self) h query None = (Inr results, h1)"
    "results \<noteq> []"
    "validate_with_llm self"
    "format_opt (prompt_validation self)
      (\<lambda>t. t query_response
              (format_results (row_repr env) (nb_example_rows self) results) question)
      = Inr content"
    "generate_reply env h1
      [SystemMessage (or_empty (system_context_validation self)), HumanMessage content]
      = Inl e"
    "hs = on_tool_error rm e
           (h1 @ [Generate Validation
                    [SystemMessage (or_empty (system_context_validation self)),
                     HumanMessage content]])"
  show v: "avalidate_response cfg self env rm h question query_response =
      ((False, '''', exn_str e), hs)"
    using consultation_raise_converted [OF a(2-7)] a(8) by simp
  show "validation_loop cfg self env rm question req_fields query_response retries
      is_valid results_str h =
      (case aimprove_query self env rm hs question query_response (exn_str e) req_fields of
         (Inl e', h2) \<Rightarrow> (Inl e', h2)
       | (Inr improved, h2) \<Rightarrow>
           validation_loop cfg self env rm question req_fields improved (retries + 1)
             False '''' h2)"
    using consultation_raise_repaired [OF a(1) v] .
qed

theorem generation_errors_by_step_witness:
  "arun example_settings example_tool
     (example_env 500 example_rows
        (scripted_llm [Inl (PyError ''TimeoutError'' ''model timed out'')]))
     True [] ''show events'' =
     (Inr ''Exception(model timed out)'',
      [OnText (Some ''list_fields''),
       Generate Selection [SystemMessage '''', HumanMessage ''''],
       OnToolError (PyError ''TimeoutError'' ''model timed out'')]) \<and>
   arun example_settings example_tool
     (example_env 500 example_rows
        (scripted_llm [Inr ''user_id'', Inl (PyError ''TimeoutError'' ''model timed out'')]))
     False [] ''show events'' =
     (Inl (PyError ''TimeoutError'' ''model timed out''),
      [Generate Selection [SystemMessage '''', HumanMessage ''''],
       Generate Generation
         [SystemMessage ''You are a test system'', HumanMessage ''show events'']]) \<and>
   arun example_settings example_tool
     (example_env 500 example_rows
        (scripted_llm [Inr ''user_id'', Inr ''SELECT * FROM events'',
                       Inl (PyError ''TimeoutError'' ''model timed out'')]))
     False [] ''show events'' =
     (Inl (PyError ''TimeoutError'' ''model timed out''),
      [Generate Selection [SystemMessage '''', HumanMessage ''''],
       Generate Generation
         [SystemMessage ''You are a test system'', HumanMessage ''show events''],
       Generate Refinement [SystemMessage ''You are a test system'', HumanMessage '''']]) \<and>
   avalidate_response example_settings example_tool
     (example_env 500 example_rows fenced_llm) False [] ''show events''
     ''```sql\<newline>SELECT * FROM events```'' =
     ((False, '''', ''model timed out''),
      [DryRun ''SELECT * FROM events'', RunQuery ''SELECT * FROM events'' [],
       Generate Validation [SystemMessage ''validate'', HumanMessage '''']])"
proof -
  let ?err = "PyError ''TimeoutError'' ''model timed out''"
  let ?sel = "Generate Selection [SystemMessage '''', HumanMessage '''']"
  let ?gen = "Generate Generation
         [SystemMessage ''You are a test system'', HumanMessage ''show events'']"
  let ?e1 = "example_env 500 example_rows (scripted_llm [Inl ?err])"
  let ?e2 = "example_env 500 example_rows (scripted_llm [Inr ''user_id'', Inl ?err])"
  let ?e3 = "example_env 500 example_rows
        (scripted_llm [Inr ''user_id'', Inr ''SELECT * FROM events'', Inl ?err])"
  let ?e4 = "example_env 500 example_rows fenced_llm"
  have tool: "prompt_selection example_tool = None" "prompt_refinement example_tool = None"
    "prompt_validation example_tool = None" "system_context_selection example_tool = None"
    "system_context_validation example_tool = Some ''validate''"
    "system_context example_tool = ''You are a test system''"
    "prompt_message example_tool ''user_id'' ''show events'' = Inr ''show events''"
    "validate_with_llm example_tool" "db example_tool = example_db"
    by (simp_all add: example_tool_def)
  have parse: "parse_raw_reply (example_env n rows llm) ''show events'' = Inr ''show events''"
    for n rows llm by (simp add: example_env_def)
  have fmt: "format_opt None f = Inr ''''" for f :: "'f \<Rightarrow> exn + string"
    by (simp add: format_opt_def)
  \<comment> \<open>field selection raises, a run manager is present\<close>
  have g1: "generate_reply ?e1 (on_text True (Some ''list_fields'') [])
      [SystemMessage (or_empty (system_context_selection example_tool)), HumanMessage '''']
      = Inl ?err"
    by (simp add: example_env_def scripted_llm_def on_text_def)
  have A: "arun example_settings example_tool ?e1 True [] ''show events'' =
      (Inr ''Exception(model timed out)'', [OnText (Some ''list_fields''), ?sel, OnToolError ?err])"
    using generation_errors_by_step [THEN conjunct1, rule_format, OF parse _ g1 refl,
        of example_settings] fmt [of "\<lambda>t. t ''show events''"]
    by (simp add: tool on_text_def or_empty_def example_env_def)
  \<comment> \<open>query generation raises\<close>
  have s2: "alist_required_fields example_tool ?e2 False [] ''show events'' =
      (Inr ''user_id'', [?sel])"
    by (simp add: alist_required_fields_def agenerate_response_def on_text_def format_opt_def
        or_empty_def example_env_def example_tool_def scripted_llm_def Let_def py_join_def
        py_strip_def is_space_def)
  have g2: "generate_reply ?e2 (on_text False (Some ''generate_query'') [?sel])
      [SystemMessage (system_context example_tool), HumanMessage ''show events''] = Inl ?err"
    by (simp add: example_env_def scripted_llm_def on_text_def)
  have B: "arun example_settings example_tool ?e2 False [] ''show events'' =
      (Inl ?err, [?sel, ?gen])"
    using generation_errors_by_step [THEN conjunct2, THEN conjunct1, rule_format,
        OF parse s2 tool(7) g2 refl, of example_settings]
    by (simp add: tool on_text_def)
  \<comment> \<open>repair raises after a failed validation\<close>
  have s3: "alist_required_fields example_tool ?e3 False [] ''show events'' =
      (Inr ''user_id'', [?sel])"
    by (simp add: alist_required_fields_def agenerate_response_def on_text_def format_opt_def
        or_empty_def example_env_def example_tool_def scripted_llm_def Let_def py_join_def
        py_strip_def is_space_def)
  have q3: "agenerate_query example_tool ?e3 False [?sel] ''show events'' ''user_id'' =
      (Inr ''SELECT * FROM events'', [?sel, ?gen])"
    by (simp add: agenerate_query_def agenerate_response_def on_text_def
        example_env_def example_tool_def scripted_llm_def Let_def)
  have v3: "avalidate_response example_settings example_tool ?e3 False [?sel, ?gen]
      ''show events'' ''SELECT * FROM events'' =
      ((False, '''', ''Could not parse SQL query from response''), [?sel, ?gen])"
    by (simp add: avalidate_response_def avalidate_try_def extract_unfenced)
  have g3: "generate_reply ?e3 (on_text False (Some ''improve_query'') [?sel, ?gen])
      [SystemMessage (system_context example_tool), HumanMessage ''''] = Inl ?err"
    by (simp add: example_env_def scripted_llm_def on_text_def)
  have f3: "format_opt (prompt_refinement example_tool)
      (\<lambda>t. t ''user_id'' ''show events'' ''SELECT * FROM events''
              ''Could not parse SQL query from response'') = Inr ''''"
    by (simp add: tool fmt)
  have l3: "validation_loop example_settings example_tool ?e3 False ''show events''
      ''user_id'' ''SELECT * FROM events'' 0 False '''' [?sel, ?gen] =
      (Inl ?err, on_text False (Some ''improve_query'') [?sel, ?gen] @
         [Generate Refinement [SystemMessage (system_context example_tool), HumanMessage '''']])"
    using generation_errors_by_step [THEN conjunct2, THEN conjunct2, THEN conjunct1,
        rule_format, OF _ v3 f3 g3, of 0 False "''''"]
    by simp
  have C: "arun example_settings example_tool ?e3 False [] ''show events'' =
      (Inl ?err, [?sel, ?gen,
        Generate Refinement [SystemMessage ''You are a test system'', HumanMessage '''']])"
    using generation_errors_by_step [THEN conjunct2, THEN conjunct2, THEN conjunct2,
        THEN conjunct1, rule_format, OF parse s3 q3 l3]
    by (simp add: tool on_text_def)
  \<comment> \<open>the validation consultation raises\<close>
  have x4: "execute_query example_settings ?e4 (db example_tool) [] ''SELECT * FROM events''
      None = (Inr example_rows,
              [DryRun ''SELECT * FROM events'', RunQuery ''SELECT * FROM events'' []])"
    by (simp add: execute_query_def pool_submit_def execute_query_sync_def example_env_def
        example_tool_def example_db_def example_settings_def)
  have rows: "example_rows \<noteq> []" by (simp add: example_rows_def)
  have f4: "format_opt (prompt_validation example_tool)
      (\<lambda>t. t ''```sql\<newline>SELECT * FROM events```''
              (format_results (row_repr ?e4) (nb_example_rows example_tool) example_rows)
              ''show events'') = Inr ''''"
    by (simp add: tool fmt)
  have g4: "generate_reply ?e4
      [DryRun ''SELECT * FROM events'', RunQuery ''SELECT * FROM events'' []]
      [SystemMessage (or_empty (system_context_validation example_tool)), HumanMessage '''']
      = Inl ?err"
    by (simp add: example_env_def fenced_llm_def tool or_empty_def)
  have D: "avalidate_response example_settings example_tool ?e4 False [] ''show events''
     ''```sql\<newline>SELECT * FROM events```'' =
     ((False, '''', ''model timed out''),
      [DryRun ''SELECT * FROM events'', RunQuery ''SELECT * FROM events'' [],
       Generate Validation [SystemMessage ''validate'', HumanMessage '''']])"
    using generation_errors_by_step [where retries = 0 and rm = False,
        THEN conjunct2, THEN conjunct2, THEN conjunct2, THEN conjunct2, rule_format,
        OF _ extract_fenced x4 rows tool(8) f4 g4 refl, THEN conjunct1]
    by (simp add: tool on_tool_error_def or_empty_def)
  from A B C D show ?thesis by simp
qed

end
